theory Spec2Isabelle
  imports Complex_Main
begin

section \<open>The data model\<close>

text \<open>
  The program (\<^verbatim>\<open>gpxutils.go\<close>) works on the types of the library
  \<^verbatim>\<open>github.com/tkrajina/gpxgo/gpx\<close>, whose declarations are not part of the
  repository. The records below carry the fields that \<^verbatim>\<open>normalizeGPX\<close>
  reads or writes. The type variable \<open>'f\<close> stands for Go's \<^verbatim>\<open>float64\<close>.
\<close>

text \<open>Modelled from the spec: the optional elevation of a point (library type
  \<^verbatim>\<open>NullableFloat64\<close>), a validity flag and a value; the zero value is
  invalid.\<close>

record 'f NullableFloat64 =
  Valid :: bool
  Value :: 'f

text \<open>Modelled from the spec: a point of the path (library type \<^verbatim>\<open>GPXPoint\<close>)
  with its position, optional elevation and timestamp.\<close>

record 'f GPXPoint =
  Latitude :: 'f
  Longitude :: 'f
  Elevation :: "'f NullableFloat64"
  Timestamp :: int

record 'f GPXTrackSegment =
  Points :: "'f GPXPoint list"

record 'f GPXTrack =
  Segments :: "'f GPXTrackSegment list"

text \<open>Modelled from the spec: the container (library type \<^verbatim>\<open>GPX\<close>) with the
  header fields that lines 44 to 57 of \<^verbatim>\<open>gpxutils.go\<close> assign.\<close>

record 'f GPX =
  Creator :: string
  Version :: string
  Name :: string
  Description :: string
  AuthorName :: string
  CopyrightAuthor :: string
  CopyrightYear :: string
  CopyrightLicense :: string
  Link :: string
  LinkText :: string
  Time :: "int option"
  Keywords :: string
  Bounds :: "('f \<times> 'f \<times> 'f \<times> 'f) option"
  Extensions :: "string list"
  Tracks :: "'f GPXTrack list"

text \<open>
  The arithmetic of \<^verbatim>\<open>float64\<close> and the two library functions that the
  program calls are parameters of the model: every function below takes them as
  its first argument. A theorem stated for an arbitrary \<open>E\<close> holds for every
  interpretation of the operations, IEEE 754 double precision with the library's
  own distance included.
\<close>

record 'f env =
  f_add :: "'f \<Rightarrow> 'f \<Rightarrow> 'f"
  f_sub :: "'f \<Rightarrow> 'f \<Rightarrow> 'f"
  f_mul :: "'f \<Rightarrow> 'f \<Rightarrow> 'f"
  f_div :: "'f \<Rightarrow> 'f \<Rightarrow> 'f"
  f_less :: "'f \<Rightarrow> 'f \<Rightarrow> bool"
  f_eq :: "'f \<Rightarrow> 'f \<Rightarrow> bool"
  f_of_int :: "int \<Rightarrow> 'f"
  f_isNaN :: "'f \<Rightarrow> bool"
  Distance2D :: "'f GPXPoint \<Rightarrow> 'f GPXPoint \<Rightarrow> 'f"
  Length2D :: "'f GPXTrackSegment \<Rightarrow> 'f"

text \<open>The failures of \<^verbatim>\<open>normalizeGPX\<close> after parsing: its three error returns
  and the run-time panic of an index out of range.\<close>

datatype error =
    NoTracks
  | NoSegments
  | InsufficientPoints nat
  | IndexOutOfRange

section \<open>The resampler\<close>

definition numTargetPoints :: nat where
  "numTargetPoints = 1000"

text \<open>Indexing a slice panics out of range.\<close>

definition index :: "'a list \<Rightarrow> nat \<Rightarrow> error + 'a" where
  "index xs i = (if i < length xs then Inr (xs ! i) else Inl IndexOutOfRange)"

text \<open>Lines 98 to 102: the inner loop that advances the cursor. It returns the
  new \<^verbatim>\<open>originalPointIndex\<close> and \<^verbatim>\<open>cumulativeDistance\<close>.\<close>

function advance ::
  "'f env \<Rightarrow> 'f GPXPoint list \<Rightarrow> 'f \<Rightarrow> nat \<Rightarrow> 'f \<Rightarrow> error + (nat \<times> 'f)" where
  "advance E sourcePoints targetDist idx cum =
     (if idx < length sourcePoints - 2 then
        (case index sourcePoints idx of
           Inl e \<Rightarrow> Inl e
         | Inr a \<Rightarrow>
            (case index sourcePoints (idx + 1) of
               Inl e \<Rightarrow> Inl e
             | Inr b \<Rightarrow>
                if f_less E (f_add E cum (Distance2D E a b)) targetDist
                then advance E sourcePoints targetDist (idx + 1)
                       (f_add E cum (Distance2D E a b))
                else Inr (idx, cum)))
      else Inr (idx, cum))"
  by pat_completeness auto
termination
  by (relation "measure (\<lambda>(E, sp, t, idx, cum). length sp - idx)") auto

declare advance.simps [simp del]

text \<open>Lines 110 to 117: the interpolation ratio and its clamp.\<close>

definition compute_ratio :: "'f env \<Rightarrow> 'f \<Rightarrow> 'f \<Rightarrow> 'f \<Rightarrow> 'f" where
  "compute_ratio E targetDist distToP1 distP1P2 =
     (let ratio = f_of_int E 0;
          ratio = (if f_less E (f_of_int E 0) distP1P2
                   then f_div E (f_sub E targetDist distToP1) distP1P2
                   else ratio);
          ratio = (if f_less E ratio (f_of_int E 0) then f_of_int E 0 else ratio);
          ratio = (if f_less E (f_of_int E 1) ratio then f_of_int E 1 else ratio)
      in ratio)"

text \<open>Lines 119 to 148: the interpolated point between \<open>p1\<close> and \<open>p2\<close>.\<close>

definition interpolated_lat :: "'f env \<Rightarrow> 'f GPXPoint \<Rightarrow> 'f GPXPoint \<Rightarrow> 'f \<Rightarrow> 'f" where
  "interpolated_lat E p1 p2 ratio =
     f_add E (Latitude p1) (f_mul E ratio (f_sub E (Latitude p2) (Latitude p1)))"

definition interpolated_lon :: "'f env \<Rightarrow> 'f GPXPoint \<Rightarrow> 'f GPXPoint \<Rightarrow> 'f \<Rightarrow> 'f" where
  "interpolated_lon E p1 p2 ratio =
     f_add E (Longitude p1) (f_mul E ratio (f_sub E (Longitude p2) (Longitude p1)))"

definition NewNullableFloat64 :: "'f \<Rightarrow> 'f NullableFloat64" where
  "NewNullableFloat64 v = \<lparr>Valid = True, Value = v\<rparr>"

definition interpolate :: "'f env \<Rightarrow> 'f GPXPoint \<Rightarrow> 'f GPXPoint \<Rightarrow> 'f \<Rightarrow> 'f GPXPoint" where
  "interpolate E p1 p2 ratio =
     (let newLat = interpolated_lat E p1 p2 ratio;
          newLon = interpolated_lon E p1 p2 ratio;
          p1EleValid = Valid (Elevation p1);
          p2EleValid = Valid (Elevation p2);
          (newEle, elevationInterpolated) =
            (if p1EleValid \<and> p2EleValid then
               (f_add E (Value (Elevation p1))
                  (f_mul E ratio (f_sub E (Value (Elevation p2)) (Value (Elevation p1)))),
                True)
             else if p1EleValid then (Value (Elevation p1), True)
             else if p2EleValid then (Value (Elevation p2), True)
             else (f_of_int E 0, False));
          newPoint = \<lparr>Latitude = newLat, Longitude = newLon,
                      Elevation = \<lparr>Valid = False, Value = f_of_int E 0\<rparr>,
                      Timestamp = Timestamp p1\<rparr>;
          newPoint = (if f_isNaN E (Latitude newPoint) \<or> f_isNaN E (Longitude newPoint)
                      then newPoint\<lparr>Latitude := Latitude p1, Longitude := Longitude p1\<rparr>
                      else newPoint);
          newPoint = (if elevationInterpolated
                      then newPoint\<lparr>Elevation := NewNullableFloat64 newEle\<rparr>
                      else newPoint)
      in newPoint)"

text \<open>The variables that the loop of lines 85 to 151 updates.\<close>

record 'f loop_state =
  cumulativeDistance :: 'f
  originalPointIndex :: nat
  newSegmentPoints :: "'f GPXPoint list"

text \<open>One iteration of the loop, for the index \<open>i\<close>.\<close>

definition loop_body ::
  "'f env \<Rightarrow> 'f GPXPoint list \<Rightarrow> 'f \<Rightarrow> nat \<Rightarrow> 'f loop_state \<Rightarrow> error + 'f loop_state" where
  "loop_body E sourcePoints intervalDistance i s =
     (if i = 0 then
        (case index sourcePoints 0 of
           Inl e \<Rightarrow> Inl e
         | Inr newPoint \<Rightarrow>
             Inr (s\<lparr>newSegmentPoints := newSegmentPoints s @ [newPoint]\<rparr>))
      else if i = numTargetPoints - 1 then
        (case index sourcePoints (length sourcePoints - 1) of
           Inl e \<Rightarrow> Inl e
         | Inr newPoint \<Rightarrow>
             Inr (s\<lparr>newSegmentPoints := newSegmentPoints s @ [newPoint]\<rparr>))
      else
        (let targetDistForCurrentPoint = f_mul E (f_of_int E (int i)) intervalDistance in
         case advance E sourcePoints targetDistForCurrentPoint
                (originalPointIndex s) (cumulativeDistance s) of
           Inl e \<Rightarrow> Inl e
         | Inr (idx, cum) \<Rightarrow>
            (case index sourcePoints idx of
               Inl e \<Rightarrow> Inl e
             | Inr p1 \<Rightarrow>
                (case index sourcePoints (idx + 1) of
                   Inl e \<Rightarrow> Inl e
                 | Inr p2 \<Rightarrow>
                    (let distToP1 = cum;
                         distP1P2 = Distance2D E p1 p2;
                         ratio = compute_ratio E targetDistForCurrentPoint distToP1 distP1P2;
                         newPoint = interpolate E p1 p2 ratio
                     in Inr \<lparr>cumulativeDistance = cum, originalPointIndex = idx,
                             newSegmentPoints = newSegmentPoints s @ [newPoint]\<rparr>)))))"

text \<open>The state after the first \<open>n\<close> iterations (\<open>i = 0, \<dots>, n - 1\<close>) of the loop
  of line 85; a panic in an iteration ends the run.\<close>

fun for_loop ::
  "'f env \<Rightarrow> 'f GPXPoint list \<Rightarrow> 'f \<Rightarrow> nat \<Rightarrow> error + 'f loop_state" where
  "for_loop E sourcePoints intervalDistance 0 =
     Inr \<lparr>cumulativeDistance = f_of_int E 0, originalPointIndex = 0, newSegmentPoints = []\<rparr>"
| "for_loop E sourcePoints intervalDistance (Suc i) =
     (case for_loop E sourcePoints intervalDistance i of
        Inl e \<Rightarrow> Inl e
      | Inr s \<Rightarrow> loop_body E sourcePoints intervalDistance i s)"

text \<open>Lines 75 to 77: the first point appended \<open>n\<close> times.\<close>

fun fill :: "nat \<Rightarrow> 'a \<Rightarrow> 'a list \<Rightarrow> 'a list" where
  "fill 0 firstPoint out = out"
| "fill (Suc n) firstPoint out = fill n firstPoint (out @ [firstPoint])"

text \<open>Lines 159 to 166: the safeguard that pads or truncates.\<close>

function pad :: "'a list \<Rightarrow> 'a \<Rightarrow> 'a list" where
  "pad out lastPt =
     (if length out < numTargetPoints then pad (out @ [lastPt]) lastPt else out)"
  by pat_completeness auto
termination
  by (relation "measure (\<lambda>(out, lastPt). numTargetPoints - length out)") auto

declare pad.simps [simp del]

definition safeguard :: "'a list \<Rightarrow> 'a list \<Rightarrow> error + 'a list" where
  "safeguard sourcePoints out =
     (if length out < numTargetPoints \<and> length sourcePoints > 0 then
        (case index out (length out - 1) of
           Inl e \<Rightarrow> Inl e
         | Inr lastPt \<Rightarrow> Inr (pad out lastPt))
      else if length out > numTargetPoints then Inr (take numTargetPoints out)
      else Inr out)"

text \<open>Lines 69 to 166: the points of the new segment.\<close>

definition resample :: "'f env \<Rightarrow> 'f GPXTrackSegment \<Rightarrow> error + 'f GPXPoint list" where
  "resample E segment =
     (let sourcePoints = Points segment;
          totalDistance = Length2D E segment
      in case
           (if f_eq E totalDistance (f_of_int E 0) then
              (if length sourcePoints > 0
               then Inr (fill numTargetPoints (sourcePoints ! 0) [])
               else Inr [])
            else
              (let intervalDistance =
                     f_div E totalDistance (f_of_int E (int numTargetPoints - 1))
               in case for_loop E sourcePoints intervalDistance numTargetPoints of
                    Inl e \<Rightarrow> Inl e
                  | Inr s \<Rightarrow> Inr (newSegmentPoints s)))
         of
           Inl e \<Rightarrow> Inl e
         | Inr out \<Rightarrow> safeguard sourcePoints out)"

text \<open>
  \<^verbatim>\<open>normalizeGPX\<close> from the parsed file (line 25) to the container handed to the
  serialiser (line 170). Reading, parsing, serialising and writing the files are
  input and output outside the model.
\<close>

definition normalizeGPX :: "'f env \<Rightarrow> 'f GPX \<Rightarrow> error + 'f GPX" where
  "normalizeGPX E gpxFile =
     (if length (Tracks gpxFile) = 0 then Inl NoTracks
      else
        (let track = Tracks gpxFile ! 0 in
         if length (Segments track) = 0 then Inl NoSegments
         else
           (let segment = Segments track ! 0;
                sourcePoints = Points segment
            in if length sourcePoints < 2 then Inl (InsufficientPoints (length sourcePoints))
               else
                 (case resample E segment of
                    Inl e \<Rightarrow> Inl e
                  | Inr out \<Rightarrow>
                      Inr \<lparr>Creator = ''gpx-normalizer'',
                           Version = Version gpxFile,
                           Name = Name gpxFile,
                           Description = Description gpxFile,
                           AuthorName = AuthorName gpxFile,
                           CopyrightAuthor = CopyrightAuthor gpxFile,
                           CopyrightYear = CopyrightYear gpxFile,
                           CopyrightLicense = CopyrightLicense gpxFile,
                           Link = Link gpxFile,
                           LinkText = LinkText gpxFile,
                           Time = Time gpxFile,
                           Keywords = Keywords gpxFile,
                           Bounds = Bounds gpxFile,
                           Extensions = Extensions gpxFile,
                           Tracks = [\<lparr>Segments = [\<lparr>Points = out\<rparr>]\<rparr>]\<rparr>))))"

section \<open>An interpretation of the arithmetic for concrete runs\<close>

text \<open>
  A \<^verbatim>\<open>float64\<close> with the special values of IEEE 754: not-a-number, the two
  infinities and the negative zero; \<open>Fin 0\<close> is the positive zero. The
  operations follow the standard on the special values and on signs, and are
  exact on finite values: they agree with double precision wherever the exact
  result is representable; rounding, overflow and underflow are left out. The
  concrete runs below use values on which the two agree.
\<close>

datatype float64 = NaN | PInf | NInf | NZero | Fin real

definition signbit :: "float64 \<Rightarrow> bool" where
  "signbit x = (case x of NInf \<Rightarrow> True | NZero \<Rightarrow> True | Fin r \<Rightarrow> r < 0 | _ \<Rightarrow> False)"

definition is_zero :: "float64 \<Rightarrow> bool" where
  "is_zero x = (x = NZero \<or> x = Fin 0)"

definition is_inf :: "float64 \<Rightarrow> bool" where
  "is_inf x = (x = PInf \<or> x = NInf)"

definition val :: "float64 \<Rightarrow> real" where
  "val x = (case x of Fin r \<Rightarrow> r | _ \<Rightarrow> 0)"

definition zero_of :: "bool \<Rightarrow> float64" where
  "zero_of s = (if s then NZero else Fin 0)"

definition inf_of :: "bool \<Rightarrow> float64" where
  "inf_of s = (if s then NInf else PInf)"

definition fin_of :: "bool \<Rightarrow> real \<Rightarrow> float64" where
  "fin_of s r = (if r = 0 then zero_of s else Fin r)"

definition fl_neg :: "float64 \<Rightarrow> float64" where
  "fl_neg x = (case x of NaN \<Rightarrow> NaN | PInf \<Rightarrow> NInf | NInf \<Rightarrow> PInf | NZero \<Rightarrow> Fin 0
     | Fin r \<Rightarrow> if r = 0 then NZero else Fin (- r))"

definition fl_add :: "float64 \<Rightarrow> float64 \<Rightarrow> float64" where
  "fl_add x y =
     (if x = NaN \<or> y = NaN then NaN
      else if is_inf x then (if is_inf y \<and> x \<noteq> y then NaN else x)
      else if is_inf y then y
      else fin_of (x = NZero \<and> y = NZero) (val x + val y))"

definition fl_sub :: "float64 \<Rightarrow> float64 \<Rightarrow> float64" where
  "fl_sub x y = fl_add x (fl_neg y)"

definition fl_mul :: "float64 \<Rightarrow> float64 \<Rightarrow> float64" where
  "fl_mul x y =
     (if x = NaN \<or> y = NaN then NaN
      else if (is_inf x \<and> is_zero y) \<or> (is_zero x \<and> is_inf y) then NaN
      else if is_inf x \<or> is_inf y then inf_of (signbit x \<noteq> signbit y)
      else fin_of (signbit x \<noteq> signbit y) (val x * val y))"

definition fl_div :: "float64 \<Rightarrow> float64 \<Rightarrow> float64" where
  "fl_div x y =
     (if x = NaN \<or> y = NaN then NaN
      else if (is_inf x \<and> is_inf y) \<or> (is_zero x \<and> is_zero y) then NaN
      else if is_inf x then inf_of (signbit x \<noteq> signbit y)
      else if is_inf y then zero_of (signbit x \<noteq> signbit y)
      else if is_zero y then inf_of (signbit x \<noteq> signbit y)
      else fin_of (signbit x \<noteq> signbit y) (val x / val y))"

definition fl_less :: "float64 \<Rightarrow> float64 \<Rightarrow> bool" where
  "fl_less x y =
     (if x = NaN \<or> y = NaN then False
      else if x = PInf \<or> y = NInf then False
      else if x = NInf \<or> y = PInf then True
      else val x < val y)"

definition fl_eq :: "float64 \<Rightarrow> float64 \<Rightarrow> bool" where
  "fl_eq x y =
     (if x = NaN \<or> y = NaN then False
      else if is_inf x \<or> is_inf y then x = y
      else val x = val y)"

definition fl_sqrt :: "float64 \<Rightarrow> float64" where
  "fl_sqrt x = (case x of NaN \<Rightarrow> NaN | PInf \<Rightarrow> PInf | NInf \<Rightarrow> NaN | NZero \<Rightarrow> NZero
     | Fin r \<Rightarrow> if r < 0 then NaN else Fin (sqrt r))"

text \<open>Modelled from the spec: the library's \<^verbatim>\<open>Distance2D\<close>, the planar
  Euclidean distance between latitude and longitude pairs taken as Cartesian
  coordinates.\<close>

definition planar_Distance2D :: "float64 GPXPoint \<Rightarrow> float64 GPXPoint \<Rightarrow> float64" where
  "planar_Distance2D p q =
     (let x = fl_sub (Latitude p) (Latitude q);
          y = fl_sub (Longitude p) (Longitude q)
      in fl_sqrt (fl_add (fl_mul x x) (fl_mul y y)))"

text \<open>Modelled from the spec: the library's \<^verbatim>\<open>Length2D\<close>, the sum of the
  distances between consecutive points, accumulated from the first pair on.\<close>

fun length_from :: "float64 \<Rightarrow> float64 GPXPoint list \<Rightarrow> float64" where
  "length_from res (p # q # ps) = length_from (fl_add res (planar_Distance2D q p)) (q # ps)"
| "length_from res ps = res"

definition planar_Length2D :: "float64 GPXTrackSegment \<Rightarrow> float64" where
  "planar_Length2D segment = length_from (Fin 0) (Points segment)"

definition ieee :: "float64 env" where
  "ieee = \<lparr>f_add = fl_add, f_sub = fl_sub, f_mul = fl_mul, f_div = fl_div,
     f_less = fl_less, f_eq = fl_eq, f_of_int = (\<lambda>i. Fin (of_int i)), f_isNaN = (\<lambda>x. x = NaN),
     Distance2D = planar_Distance2D, Length2D = planar_Length2D\<rparr>"

text \<open>A point without elevation, for the concrete runs.\<close>

definition pt :: "float64 \<Rightarrow> float64 \<Rightarrow> float64 GPXPoint" where
  "pt la lo = \<lparr>Latitude = la, Longitude = lo, Elevation = \<lparr>Valid = False, Value = Fin 0\<rparr>, Timestamp = 0\<rparr>"

text \<open>A point with an elevation, for the concrete runs.\<close>

definition pte :: "float64 \<Rightarrow> float64 \<Rightarrow> float64 \<Rightarrow> float64 GPXPoint" where
  "pte la lo el = \<lparr>Latitude = la, Longitude = lo,
     Elevation = \<lparr>Valid = True, Value = el\<rparr>, Timestamp = 0\<rparr>"

section \<open>Observing the output\<close>

text \<open>The output point of index \<open>i\<close>, when the resampling returns one.\<close>

definition output_point :: "'f env \<Rightarrow> 'f GPXTrackSegment \<Rightarrow> nat \<Rightarrow> 'f GPXPoint option" where
  "output_point E segment i =
     (case resample E segment of
        Inl e \<Rightarrow> None
      | Inr out \<Rightarrow> if i < length out then Some (out ! i) else None)"


text \<open>A parsed file with one track of one segment, for the concrete runs.\<close>

definition gpx_of :: "'f GPXPoint list \<Rightarrow> 'f GPX" where
  "gpx_of ps = \<lparr>Creator = ''recorder'', Version = ''1.1'', Name = ''ride'',
     Description = ''d'', AuthorName = ''a'', CopyrightAuthor = ''c'', CopyrightYear = ''2024'',
     CopyrightLicense = ''l'', Link = ''http://x'', LinkText = ''x'', Time = Some 7,
     Keywords = ''k'', Bounds = None, Extensions = [''e''],
     Tracks = [\<lparr>Segments = [\<lparr>Points = ps\<rparr>]\<rparr>]\<rparr>"

section \<open>Properties of the loops\<close>

lemmas fl_defs = signbit_def is_zero_def is_inf_def val_def zero_of_def inf_of_def fin_of_def
  fl_neg_def fl_add_def fl_sub_def fl_mul_def fl_div_def fl_less_def fl_eq_def fl_sqrt_def
  planar_Distance2D_def planar_Length2D_def ieee_def

lemma index_Inr: "i < length xs \<Longrightarrow> index xs i = Inr (xs ! i)"
  by (simp add: index_def)

lemma advance_ok:
  "2 \<le> length sp \<Longrightarrow> idx \<le> length sp - 2 \<Longrightarrow>
   \<exists>k c. advance E sp t idx cum = Inr (k, c) \<and> idx \<le> k \<and> k \<le> length sp - 2"
proof (induction E sp t idx cum rule: advance.induct)
  case (1 E sp t idx cum)
  show ?case
  proof (cases "idx < length sp - 2")
    case False
    then have "advance E sp t idx cum = Inr (idx, cum)"
      by (subst advance.simps) simp
    then show ?thesis
      using "1.prems" by simp
  next
    case True
    let ?a = "sp ! idx" and ?b = "sp ! (idx + 1)"
    from True have ia: "index sp idx = Inr ?a" and ib: "index sp (idx + 1) = Inr ?b"
      by (simp_all add: index_Inr)
    show ?thesis
    proof (cases "f_less E (f_add E cum (Distance2D E ?a ?b)) t")
      case False
      then have "advance E sp t idx cum = Inr (idx, cum)"
        using True ia ib by (subst advance.simps) simp
      then show ?thesis
        using "1.prems" by simp
    next
      case less: True
      from True have "idx + 1 \<le> length sp - 2" by simp
      from "1.IH" [OF True ia ib less "1.prems"(1) this]
      obtain k c where
        "advance E sp t (idx + 1) (f_add E cum (Distance2D E ?a ?b)) = Inr (k, c)"
        "idx + 1 \<le> k" "k \<le> length sp - 2" by blast
      moreover have "advance E sp t idx cum =
          advance E sp t (idx + 1) (f_add E cum (Distance2D E ?a ?b))"
        using True less ia ib by (subst advance.simps) simp
      ultimately show ?thesis by auto
    qed
  qed
qed

lemma loop_body_ok:
  assumes "2 \<le> length sp" "originalPointIndex s \<le> length sp - 2"
  shows "\<exists>s'. loop_body E sp iv i s = Inr s'
     \<and> originalPointIndex s \<le> originalPointIndex s'
     \<and> originalPointIndex s' \<le> length sp - 2
     \<and> length (newSegmentPoints s') = Suc (length (newSegmentPoints s))"
proof -
  consider "i = 0" | "i \<noteq> 0" "i = numTargetPoints - 1" | "i \<noteq> 0" "i \<noteq> numTargetPoints - 1"
    by blast
  then show ?thesis
  proof cases
    case 1
    from assms have "index sp 0 = Inr (sp ! 0)" by (auto simp: index_def)
    with 1 show ?thesis using assms by (simp add: loop_body_def)
  next
    case 2
    from assms have "index sp (length sp - 1) = Inr (sp ! (length sp - 1))"
      by (auto simp: index_def)
    with 2 show ?thesis using assms by (simp add: loop_body_def)
  next
    case 3
    let ?t = "f_mul E (f_of_int E (int i)) iv"
    from advance_ok [OF assms, of E ?t "cumulativeDistance s"]
    obtain k c where adv: "advance E sp ?t (originalPointIndex s) (cumulativeDistance s) = Inr (k, c)"
      and k: "originalPointIndex s \<le> k" "k \<le> length sp - 2" by blast
    from k assms have "k < length sp" "k + 1 < length sp" by simp_all
    then show ?thesis
      using 3 adv k by (simp add: loop_body_def index_Inr Let_def)
  qed
qed

lemma for_loop_ok:
  assumes "2 \<le> length sp"
  shows "\<exists>s. for_loop E sp iv n = Inr s
     \<and> originalPointIndex s \<le> length sp - 2
     \<and> length (newSegmentPoints s) = n"
proof (induction n)
  case 0
  show ?case by simp
next
  case (Suc n)
  then obtain s where s: "for_loop E sp iv n = Inr s" "originalPointIndex s \<le> length sp - 2"
    "length (newSegmentPoints s) = n" by blast
  from loop_body_ok [OF assms s(2), of E iv n] s show ?case by auto
qed


lemma for_loop_Inr:
  assumes "2 \<le> length sp"
  obtains s where "for_loop E sp iv n = Inr s" "originalPointIndex s \<le> length sp - 2"
    "length (newSegmentPoints s) = n"
  using for_loop_ok [OF assms] by blast

lemma loop_body_append:
  "loop_body E sp iv i s = Inr s' \<Longrightarrow> \<exists>p. newSegmentPoints s' = newSegmentPoints s @ [p]"
  by (auto simp: loop_body_def Let_def split: if_splits sum.splits prod.splits)

lemma for_loop_mono:
  assumes sp: "2 \<le> length sp" and nm: "n \<le> m"
    and n: "for_loop E sp iv n = Inr s" and m: "for_loop E sp iv m = Inr s'"
  shows "originalPointIndex s \<le> originalPointIndex s'
     \<and> take n (newSegmentPoints s') = newSegmentPoints s"
  using nm m
proof (induction m arbitrary: s')
  case 0
  with n show ?case by auto
next
  case (Suc m)
  show ?case
  proof (cases "n = Suc m")
    case True
    obtain u where "for_loop E sp iv n = Inr u" "length (newSegmentPoints u) = n"
      by (rule for_loop_Inr [OF sp])
    with n True Suc.prems show ?thesis by simp
  next
    case False
    with Suc.prems have le: "n \<le> m" by simp
    obtain u where u: "for_loop E sp iv m = Inr u" "originalPointIndex u \<le> length sp - 2"
      "length (newSegmentPoints u) = m"
      by (rule for_loop_Inr [OF sp])
    from Suc.IH [OF le u(1)]
    have ih: "originalPointIndex s \<le> originalPointIndex u"
      "take n (newSegmentPoints u) = newSegmentPoints s" by simp_all
    from Suc.prems(2) u(1) have body: "loop_body E sp iv m u = Inr s'" by simp
    from loop_body_ok [OF sp u(2), of E iv m] body
    have "originalPointIndex u \<le> originalPointIndex s'" by simp
    moreover from loop_body_append [OF body] obtain p
      where "newSegmentPoints s' = newSegmentPoints u @ [p]" by blast
    ultimately show ?thesis using ih le u(3) by simp
  qed
qed

lemma for_loop_nth:
  assumes sp: "2 \<le> length sp" and nm: "i < m"
    and n: "for_loop E sp iv (Suc i) = Inr s" and m: "for_loop E sp iv m = Inr s'"
  shows "newSegmentPoints s' ! i = newSegmentPoints s ! i"
proof -
  from nm have "Suc i \<le> m" by simp
  from for_loop_mono [OF sp this n m]
  have "take (Suc i) (newSegmentPoints s') = newSegmentPoints s" by simp
  then have "newSegmentPoints s ! i = take (Suc i) (newSegmentPoints s') ! i" by simp
  also have "\<dots> = newSegmentPoints s' ! i" by simp
  finally show ?thesis by simp
qed

lemma numTargetPoints_Suc: "numTargetPoints = Suc (numTargetPoints - 1)"
  by (simp add: numTargetPoints_def)

lemma first_output:
  assumes sp: "2 \<le> length sp" and m: "for_loop E sp iv numTargetPoints = Inr s"
  shows "newSegmentPoints s ! 0 = sp ! 0"
proof -
  from sp have "index sp 0 = Inr (sp ! 0)" by (auto simp: index_def)
  then have "for_loop E sp iv (Suc 0) =
      Inr \<lparr>cumulativeDistance = f_of_int E 0, originalPointIndex = 0, newSegmentPoints = [sp ! 0]\<rparr>"
    by (simp add: loop_body_def)
  from for_loop_nth [OF sp _ this m] show ?thesis by (simp add: numTargetPoints_def)
qed

lemma last_output:
  assumes sp: "2 \<le> length sp" and m: "for_loop E sp iv numTargetPoints = Inr s"
  shows "last (newSegmentPoints s) = last sp"
proof -
  obtain u where u: "for_loop E sp iv (numTargetPoints - 1) = Inr u"
    by (rule for_loop_Inr [OF sp])
  from sp have ne: "sp \<noteq> []" by auto
  then have "index sp (length sp - 1) = Inr (last sp)"
    by (simp add: index_def last_conv_nth)
  moreover have "numTargetPoints - 1 \<noteq> 0" by (simp add: numTargetPoints_def)
  ultimately have "loop_body E sp iv (numTargetPoints - 1) u =
      Inr (u\<lparr>newSegmentPoints := newSegmentPoints u @ [last sp]\<rparr>)"
    by (simp add: loop_body_def)
  moreover from m u have "loop_body E sp iv (numTargetPoints - 1) u = Inr s"
    by (subst (asm) numTargetPoints_Suc) simp
  ultimately show ?thesis by auto
qed

lemma interior_output:
  assumes sp: "2 \<le> length sp" and i: "0 < i" "i < numTargetPoints - 1"
  shows "\<exists>s u k c. for_loop E sp iv numTargetPoints = Inr s
     \<and> for_loop E sp iv i = Inr u
     \<and> advance E sp (f_mul E (f_of_int E (int i)) iv)
          (originalPointIndex u) (cumulativeDistance u) = Inr (k, c)
     \<and> originalPointIndex u \<le> k \<and> k + 1 < length sp
     \<and> newSegmentPoints s ! i =
         interpolate E (sp ! k) (sp ! (k + 1))
           (compute_ratio E (f_mul E (f_of_int E (int i)) iv) c
              (Distance2D E (sp ! k) (sp ! (k + 1))))"
proof -
  let ?t = "f_mul E (f_of_int E (int i)) iv"
  obtain s where s: "for_loop E sp iv numTargetPoints = Inr s"
    by (rule for_loop_Inr [OF sp])
  obtain u where u: "for_loop E sp iv i = Inr u" "originalPointIndex u \<le> length sp - 2"
    "length (newSegmentPoints u) = i"
    by (rule for_loop_Inr [OF sp])
  obtain v where v: "for_loop E sp iv (Suc i) = Inr v"
    by (rule for_loop_Inr [OF sp])
  from advance_ok [OF sp u(2), of E ?t "cumulativeDistance u"]
  obtain k c where adv: "advance E sp ?t (originalPointIndex u) (cumulativeDistance u) = Inr (k, c)"
    and k: "originalPointIndex u \<le> k" "k \<le> length sp - 2" by blast
  from k sp have kb: "k < length sp" "k + 1 < length sp" by simp_all
  let ?p = "interpolate E (sp ! k) (sp ! (k + 1))
     (compute_ratio E ?t c (Distance2D E (sp ! k) (sp ! (k + 1))))"
  from i adv kb have "loop_body E sp iv i u =
      Inr \<lparr>cumulativeDistance = c, originalPointIndex = k,
           newSegmentPoints = newSegmentPoints u @ [?p]\<rparr>"
    by (simp add: loop_body_def index_Inr Let_def)
  with u(1) v have "newSegmentPoints v = newSegmentPoints u @ [?p]" by auto
  with u(3) have "newSegmentPoints v ! i = ?p" by (metis nth_append_length)
  moreover from i have "i < numTargetPoints" by simp
  from for_loop_nth [OF sp this v s]
  have "newSegmentPoints s ! i = newSegmentPoints v ! i" .
  ultimately show ?thesis using s u(1) adv k(1) kb(2) by auto
qed

lemma fill_replicate: "fill n x out = out @ replicate n x"
  by (induction n x out rule: fill.induct) (simp_all add: replicate_app_Cons_same)

lemma safeguard_full: "length out = numTargetPoints \<Longrightarrow> safeguard sp out = Inr out"
  by (simp add: safeguard_def)

lemma resample_degenerate:
  assumes "2 \<le> length (Points segment)"
    and "f_eq E (Length2D E segment) (f_of_int E 0)"
  shows "resample E segment = Inr (replicate numTargetPoints (Points segment ! 0))"
proof -
  from assms(1) have "Points segment \<noteq> []" by auto
  with assms(2) show ?thesis
    by (simp add: resample_def fill_replicate safeguard_full)
qed

lemma resample_general:
  assumes sp: "2 \<le> length (Points segment)"
    and ne: "\<not> f_eq E (Length2D E segment) (f_of_int E 0)"
  shows "\<exists>s. for_loop E (Points segment)
            (f_div E (Length2D E segment) (f_of_int E (int numTargetPoints - 1)))
            numTargetPoints = Inr s
     \<and> length (newSegmentPoints s) = numTargetPoints
     \<and> resample E segment = Inr (newSegmentPoints s)"
proof -
  obtain s where "for_loop E (Points segment)
      (f_div E (Length2D E segment) (f_of_int E (int numTargetPoints - 1))) numTargetPoints = Inr s"
    "length (newSegmentPoints s) = numTargetPoints"
    by (rule for_loop_Inr [OF sp])
  with ne show ?thesis
    by (simp add: resample_def safeguard_full)
qed

lemma resample_ok:
  assumes "2 \<le> length (Points segment)"
  shows "\<exists>out. resample E segment = Inr out \<and> length out = numTargetPoints"
proof (cases "f_eq E (Length2D E segment) (f_of_int E 0)")
  case True
  from resample_degenerate [OF assms True] show ?thesis by simp
next
  case False
  from resample_general [OF assms False] show ?thesis by auto
qed

lemma normalizeGPX_ok:
  assumes "Tracks g \<noteq> []" "Segments (Tracks g ! 0) \<noteq> []"
    "2 \<le> length (Points (Segments (Tracks g ! 0) ! 0))"
  shows "\<exists>out. resample E (Segments (Tracks g ! 0) ! 0) = Inr out
     \<and> length out = numTargetPoints
     \<and> normalizeGPX E g =
         Inr \<lparr>Creator = ''gpx-normalizer'', Version = Version g, Name = Name g,
           Description = Description g, AuthorName = AuthorName g,
           CopyrightAuthor = CopyrightAuthor g, CopyrightYear = CopyrightYear g,
           CopyrightLicense = CopyrightLicense g, Link = Link g, LinkText = LinkText g,
           Time = Time g, Keywords = Keywords g, Bounds = Bounds g,
           Extensions = Extensions g, Tracks = [\<lparr>Segments = [\<lparr>Points = out\<rparr>]\<rparr>]\<rparr>"
proof -
  from resample_ok [OF assms(3), of E] obtain out
    where "resample E (Segments (Tracks g ! 0) ! 0) = Inr out" "length out = numTargetPoints"
    by blast
  with assms show ?thesis
    by (simp add: normalizeGPX_def Let_def)
qed

lemma output_point_degenerate:
  assumes "2 \<le> length (Points segment)"
    and "f_eq E (Length2D E segment) (f_of_int E 0)"
    and "i < numTargetPoints"
  shows "output_point E segment i = Some (Points segment ! 0)"
  using resample_degenerate [OF assms(1,2)] assms(3)
  by (simp add: output_point_def)

lemma output_point_general:
  assumes sp: "2 \<le> length (Points segment)"
    and ne: "\<not> f_eq E (Length2D E segment) (f_of_int E 0)"
    and i: "i < numTargetPoints"
  shows "\<exists>s. for_loop E (Points segment)
            (f_div E (Length2D E segment) (f_of_int E (int numTargetPoints - 1)))
            numTargetPoints = Inr s
     \<and> length (newSegmentPoints s) = numTargetPoints
     \<and> output_point E segment i = Some (newSegmentPoints s ! i)"
  using resample_general [OF sp ne] i
  by (auto simp: output_point_def)

lemma output_point_first:
  assumes sp: "2 \<le> length (Points segment)"
  shows "output_point E segment 0 = Some (Points segment ! 0)"
proof (cases "f_eq E (Length2D E segment) (f_of_int E 0)")
  case True
  from output_point_degenerate [OF sp True, of 0] show ?thesis
    by (simp add: numTargetPoints_def)
next
  case False
  have "0 < numTargetPoints" by (simp add: numTargetPoints_def)
  from output_point_general [OF sp False this] first_output [OF sp]
  show ?thesis by auto
qed

lemma output_point_last:
  assumes sp: "2 \<le> length (Points segment)"
    and ne: "\<not> f_eq E (Length2D E segment) (f_of_int E 0)"
  shows "output_point E segment (numTargetPoints - 1) = Some (last (Points segment))"
proof -
  have "numTargetPoints - 1 < numTargetPoints" by (simp add: numTargetPoints_def)
  from output_point_general [OF sp ne this] obtain s where s:
    "for_loop E (Points segment)
       (f_div E (Length2D E segment) (f_of_int E (int numTargetPoints - 1)))
       numTargetPoints = Inr s"
    "length (newSegmentPoints s) = numTargetPoints"
    "output_point E segment (numTargetPoints - 1) = Some (newSegmentPoints s ! (numTargetPoints - 1))"
    by blast
  from s(2) have "newSegmentPoints s \<noteq> []" by (auto simp: numTargetPoints_def)
  then have "last (newSegmentPoints s) = newSegmentPoints s ! (numTargetPoints - 1)"
    using s(2) by (simp add: last_conv_nth)
  with last_output [OF sp s(1)] s(3) show ?thesis by simp
qed

lemma output_point_interior:
  assumes sp: "2 \<le> length (Points segment)"
    and ne: "\<not> f_eq E (Length2D E segment) (f_of_int E 0)"
    and i: "0 < i" "i < numTargetPoints - 1"
  shows "\<exists>u k c. for_loop E (Points segment)
            (f_div E (Length2D E segment) (f_of_int E (int numTargetPoints - 1))) i = Inr u
     \<and> advance E (Points segment)
          (f_mul E (f_of_int E (int i))
             (f_div E (Length2D E segment) (f_of_int E (int numTargetPoints - 1))))
          (originalPointIndex u) (cumulativeDistance u) = Inr (k, c)
     \<and> k + 1 < length (Points segment)
     \<and> output_point E segment i =
         Some (interpolate E (Points segment ! k) (Points segment ! (k + 1))
           (compute_ratio E
              (f_mul E (f_of_int E (int i))
                 (f_div E (Length2D E segment) (f_of_int E (int numTargetPoints - 1))))
              c (Distance2D E (Points segment ! k) (Points segment ! (k + 1)))))"
proof -
  let ?iv = "f_div E (Length2D E segment) (f_of_int E (int numTargetPoints - 1))"
  from i have "i < numTargetPoints" by simp
  from output_point_general [OF sp ne this] obtain s where s:
    "for_loop E (Points segment) ?iv numTargetPoints = Inr s"
    "output_point E segment i = Some (newSegmentPoints s ! i)"
    by blast
  from interior_output [OF sp i, of E ?iv] s show ?thesis by auto
qed

lemma interpolate_elevation:
  "Elevation (interpolate E p1 p2 ratio) =
     (if Valid (Elevation p1) \<and> Valid (Elevation p2) then
        \<lparr>Valid = True,
         Value = f_add E (Value (Elevation p1))
                   (f_mul E ratio (f_sub E (Value (Elevation p2)) (Value (Elevation p1))))\<rparr>
      else if Valid (Elevation p1) then \<lparr>Valid = True, Value = Value (Elevation p1)\<rparr>
      else if Valid (Elevation p2) then \<lparr>Valid = True, Value = Value (Elevation p2)\<rparr>
      else \<lparr>Valid = False, Value = f_of_int E 0\<rparr>)"
  by (simp add: interpolate_def Let_def NewNullableFloat64_def)

lemma interpolate_position:
  "Latitude (interpolate E p1 p2 ratio) =
     (if f_isNaN E (interpolated_lat E p1 p2 ratio) \<or> f_isNaN E (interpolated_lon E p1 p2 ratio)
      then Latitude p1 else interpolated_lat E p1 p2 ratio)"
  "Longitude (interpolate E p1 p2 ratio) =
     (if f_isNaN E (interpolated_lat E p1 p2 ratio) \<or> f_isNaN E (interpolated_lon E p1 p2 ratio)
      then Longitude p1 else interpolated_lon E p1 p2 ratio)"
  by (simp_all add: interpolate_def Let_def split: prod.splits)

lemma interpolate_timestamp: "Timestamp (interpolate E p1 p2 ratio) = Timestamp p1"
  by (simp add: interpolate_def Let_def split: prod.splits)

lemma output_point_run:
  assumes sp: "2 \<le> length (Points segment)"
    and ne: "\<not> f_eq E (Length2D E segment) (f_of_int E 0)"
    and i: "i < numTargetPoints"
    and run: "for_loop E (Points segment)
            (f_div E (Length2D E segment) (f_of_int E (int numTargetPoints - 1))) (Suc i) = Inr v"
  shows "output_point E segment i = Some (newSegmentPoints v ! i)"
proof -
  from output_point_general [OF sp ne i] obtain s where s:
    "for_loop E (Points segment)
       (f_div E (Length2D E segment) (f_of_int E (int numTargetPoints - 1)))
       numTargetPoints = Inr s"
    "output_point E segment i = Some (newSegmentPoints s ! i)"
    by blast
  from for_loop_nth [OF sp i run s(1)] s(2) show ?thesis by simp
qed

lemmas run_defs = loop_body_def index_def advance.simps numTargetPoints_def
  compute_ratio_def interpolate_def interpolated_lat_def interpolated_lon_def Let_def
  NewNullableFloat64_def

subsection \<open>The cursor and the accumulated distance\<close>



section \<open>The claims\<close>

text \<open>
  C1. For every parsed file whose first segment of the first track has at least
  two points, \<^verbatim>\<open>normalizeGPX\<close> succeeds and the segment of the container it
  builds has exactly 1000 points, in the branch of zero total distance as in the
  general loop, for every interpretation of the arithmetic.
\<close>

theorem exact_count:
  assumes "Tracks gpxFile \<noteq> []" and "Segments (Tracks gpxFile ! 0) \<noteq> []"
    and "2 \<le> length (Points (Segments (Tracks gpxFile ! 0) ! 0))"
  shows "\<exists>newGpx out. normalizeGPX E gpxFile = Inr newGpx
     \<and> Tracks newGpx = [\<lparr>Segments = [\<lparr>Points = out\<rparr>]\<rparr>] \<and> length out = 1000"
proof -
  from normalizeGPX_ok [OF assms, of E] show ?thesis
    by (auto simp: numTargetPoints_def)
qed

theorem exact_count_witness:
  "Tracks (gpx_of [pt (Fin 0) (Fin 0), pt (Fin 0) (Fin 10)]) \<noteq> []
   \<and> Segments (Tracks (gpx_of [pt (Fin 0) (Fin 0), pt (Fin 0) (Fin 10)]) ! 0) \<noteq> []
   \<and> 2 \<le> length (Points (Segments (Tracks (gpx_of [pt (Fin 0) (Fin 0), pt (Fin 0) (Fin 10)]) ! 0) ! 0))
   \<and> (\<exists>newGpx out.
         normalizeGPX ieee (gpx_of [pt (Fin 0) (Fin 0), pt (Fin 0) (Fin 10)]) = Inr newGpx
       \<and> Tracks newGpx = [\<lparr>Segments = [\<lparr>Points = out\<rparr>]\<rparr>] \<and> length out = 1000)"
  using exact_count [of "gpx_of [pt (Fin 0) (Fin 0), pt (Fin 0) (Fin 10)]" ieee]
  by (simp add: gpx_of_def)

text \<open>
  C2, as amended. With at least two points, the first output point is the first
  input point. When the total distance is not zero, the last output point is the
  last input point. When the total distance is zero, the last output point is a
  copy of the first input point; it has the position of the last input point
  only where the two positions are the same.
\<close>

theorem endpoints:
  assumes "2 \<le> length (Points segment)"
  shows "output_point E segment 0 = Some (Points segment ! 0)
     \<and> (\<not> f_eq E (Length2D E segment) (f_of_int E 0) \<longrightarrow>
          output_point E segment (numTargetPoints - 1) = Some (last (Points segment)))
     \<and> (f_eq E (Length2D E segment) (f_of_int E 0) \<longrightarrow>
          output_point E segment (numTargetPoints - 1) = Some (Points segment ! 0))"
proof -
  have "numTargetPoints - 1 < numTargetPoints" by (simp add: numTargetPoints_def)
  with output_point_first [OF assms] output_point_last [OF assms]
    output_point_degenerate [OF assms]
  show ?thesis by blast
qed

theorem endpoints_witness:
  "2 \<le> length (Points \<lparr>Points = [pt (Fin 0) (Fin 0), pt (Fin 0) (Fin 1)]\<rparr>)
   \<and> \<not> f_eq ieee (Length2D ieee \<lparr>Points = [pt (Fin 0) (Fin 0), pt (Fin 0) (Fin 1)]\<rparr>)
          (f_of_int ieee 0)
   \<and> output_point ieee \<lparr>Points = [pt (Fin 0) (Fin 0), pt (Fin 0) (Fin 1)]\<rparr> 0 =
       Some (pt (Fin 0) (Fin 0))
   \<and> output_point ieee \<lparr>Points = [pt (Fin 0) (Fin 0), pt (Fin 0) (Fin 1)]\<rparr> 999 =
       Some (pt (Fin 0) (Fin 1))"
proof -
  have ne: "\<not> f_eq ieee (Length2D ieee \<lparr>Points = [pt (Fin 0) (Fin 0), pt (Fin 0) (Fin 1)]\<rparr>)
      (f_of_int ieee 0)"
    by (simp add: fl_defs pt_def)
  from endpoints [of "\<lparr>Points = [pt (Fin 0) (Fin 0), pt (Fin 0) (Fin 1)]\<rparr>" ieee] ne
  show ?thesis by (simp add: numTargetPoints_def)
qed

text \<open>
  C2 as stated fails: the two points \<open>(+0, +0)\<close> and \<open>(-0, +0)\<close> are at distance
  zero, the output is 1000 copies of the first, and the latitude of the last
  output point is \<open>+0\<close> where the last input point has \<open>-0\<close>.
\<close>

theorem endpoints_counterexample:
  "f_eq ieee (Length2D ieee \<lparr>Points = [pt (Fin 0) (Fin 0), pt NZero (Fin 0)]\<rparr>) (f_of_int ieee 0)
   \<and> output_point ieee \<lparr>Points = [pt (Fin 0) (Fin 0), pt NZero (Fin 0)]\<rparr> 999 =
       Some (pt (Fin 0) (Fin 0))
   \<and> Latitude (pt (Fin 0) (Fin 0)) \<noteq> Latitude (last [pt (Fin 0) (Fin 0), pt NZero (Fin 0)])"
proof -
  have zero: "f_eq ieee (Length2D ieee \<lparr>Points = [pt (Fin 0) (Fin 0), pt NZero (Fin 0)]\<rparr>)
      (f_of_int ieee 0)"
    by (simp add: fl_defs pt_def)
  have "output_point ieee \<lparr>Points = [pt (Fin 0) (Fin 0), pt NZero (Fin 0)]\<rparr> 999 =
      Some (Points \<lparr>Points = [pt (Fin 0) (Fin 0), pt NZero (Fin 0)]\<rparr> ! 0)"
    by (rule output_point_degenerate [OF _ zero]) (simp_all add: numTargetPoints_def)
  with zero show ?thesis by (simp add: pt_def)
qed

text \<open>
  C3. With at least two points and a total distance equal to zero, the output is
  1000 copies of the first input point: every output point has its latitude,
  longitude, elevation validity and elevation value.
\<close>

theorem degenerate_path:
  assumes "2 \<le> length (Points segment)"
    and "f_eq E (Length2D E segment) (f_of_int E 0)"
  shows "resample E segment = Inr (replicate 1000 (Points segment ! 0))
     \<and> (\<forall>i<1000. \<exists>p. output_point E segment i = Some p
          \<and> Latitude p = Latitude (Points segment ! 0)
          \<and> Longitude p = Longitude (Points segment ! 0)
          \<and> Valid (Elevation p) = Valid (Elevation (Points segment ! 0))
          \<and> Value (Elevation p) = Value (Elevation (Points segment ! 0))
          \<and> p = Points segment ! 0)"
  using resample_degenerate [OF assms] output_point_degenerate [OF assms]
  by (simp add: numTargetPoints_def)

theorem degenerate_path_witness:
  "2 \<le> length (Points \<lparr>Points = [pt (Fin 5) (Fin 5), pt (Fin 5) (Fin 5), pt (Fin 5) (Fin 5)]\<rparr>)
   \<and> f_eq ieee (Length2D ieee
         \<lparr>Points = [pt (Fin 5) (Fin 5), pt (Fin 5) (Fin 5), pt (Fin 5) (Fin 5)]\<rparr>) (f_of_int ieee 0)
   \<and> resample ieee \<lparr>Points = [pt (Fin 5) (Fin 5), pt (Fin 5) (Fin 5), pt (Fin 5) (Fin 5)]\<rparr> =
       Inr (replicate 1000 (pt (Fin 5) (Fin 5)))
   \<and> output_point ieee \<lparr>Points = [pt (Fin 5) (Fin 5), pt (Fin 5) (Fin 5), pt (Fin 5) (Fin 5)]\<rparr> 3 =
       Some (pt (Fin 5) (Fin 5))"
proof -
  have zero: "f_eq ieee (Length2D ieee
      \<lparr>Points = [pt (Fin 5) (Fin 5), pt (Fin 5) (Fin 5), pt (Fin 5) (Fin 5)]\<rparr>) (f_of_int ieee 0)"
    by (simp add: fl_defs pt_def)
  from degenerate_path [OF _ zero] zero show ?thesis by simp
qed

text \<open>
  C4. When the file has a first track with a first segment, \<^verbatim>\<open>normalizeGPX\<close>
  returns the error of insufficient points exactly when that segment has fewer
  than two points (the error carries the number found, and no container is
  returned); with two points or more it returns a container.
\<close>

theorem insufficient_points:
  assumes "Tracks gpxFile \<noteq> []" and "Segments (Tracks gpxFile ! 0) \<noteq> []"
  shows "((\<exists>n. normalizeGPX E gpxFile = Inl (InsufficientPoints n))
          \<longleftrightarrow> length (Points (Segments (Tracks gpxFile ! 0) ! 0)) < 2)
     \<and> (length (Points (Segments (Tracks gpxFile ! 0) ! 0)) < 2 \<longrightarrow>
          normalizeGPX E gpxFile =
            Inl (InsufficientPoints (length (Points (Segments (Tracks gpxFile ! 0) ! 0)))))
     \<and> (2 \<le> length (Points (Segments (Tracks gpxFile ! 0) ! 0)) \<longrightarrow>
          (\<exists>newGpx. normalizeGPX E gpxFile = Inr newGpx))"
proof -
  let ?n = "length (Points (Segments (Tracks gpxFile ! 0) ! 0))"
  have small: "normalizeGPX E gpxFile = Inl (InsufficientPoints ?n)" if "?n < 2"
    using that assms by (simp add: normalizeGPX_def Let_def)
  have big: "\<exists>newGpx. normalizeGPX E gpxFile = Inr newGpx" if "2 \<le> ?n"
    using normalizeGPX_ok [OF assms that, of E] by blast
  have "?n < 2" if "normalizeGPX E gpxFile = Inl (InsufficientPoints n)" for n
  proof (rule ccontr)
    assume "\<not> ?n < 2"
    then have "2 \<le> ?n" by simp
    from big [OF this] that show False by auto
  qed
  with small big show ?thesis by blast
qed

theorem insufficient_points_witness:
  "Tracks (gpx_of [pt (Fin 1) (Fin 2)]) \<noteq> []
   \<and> Segments (Tracks (gpx_of [pt (Fin 1) (Fin 2)]) ! 0) \<noteq> []
   \<and> length (Points (Segments (Tracks (gpx_of [pt (Fin 1) (Fin 2)]) ! 0) ! 0)) < 2
   \<and> normalizeGPX ieee (gpx_of [pt (Fin 1) (Fin 2)]) = Inl (InsufficientPoints 1)"
  using insufficient_points [of "gpx_of [pt (Fin 1) (Fin 2)]" ieee]
  by (simp add: gpx_of_def)

text \<open>
  C5. With at least two points the loop never panics: after any number of
  iterations the cursor is at most \<open>len(sourcePoints) - 2\<close>, it is at least
  what it was after fewer iterations, and the two reads at the cursor and at the
  cursor plus one are within the slice.
\<close>

theorem cursor_in_bounds:
  assumes "2 \<le> length sourcePoints" and "n \<le> m"
  shows "\<exists>s s'. for_loop E sourcePoints intervalDistance n = Inr s
     \<and> for_loop E sourcePoints intervalDistance m = Inr s'
     \<and> originalPointIndex s \<le> originalPointIndex s'
     \<and> originalPointIndex s' \<le> length sourcePoints - 2
     \<and> index sourcePoints (originalPointIndex s') = Inr (sourcePoints ! originalPointIndex s')
     \<and> index sourcePoints (originalPointIndex s' + 1) =
         Inr (sourcePoints ! (originalPointIndex s' + 1))"
proof -
  obtain s where s: "for_loop E sourcePoints intervalDistance n = Inr s"
    by (rule for_loop_Inr [OF assms(1)])
  obtain s' where s': "for_loop E sourcePoints intervalDistance m = Inr s'"
    "originalPointIndex s' \<le> length sourcePoints - 2"
    by (rule for_loop_Inr [OF assms(1)])
  from for_loop_mono [OF assms s s'(1)]
  have "originalPointIndex s \<le> originalPointIndex s'" by simp
  moreover from s'(2) assms(1) have "originalPointIndex s' < length sourcePoints"
    "originalPointIndex s' + 1 < length sourcePoints" by simp_all
  ultimately show ?thesis using s s' by (simp add: index_Inr)
qed

theorem cursor_in_bounds_witness:
  "2 \<le> length [pt (Fin 0) (Fin 0), pt (Fin 0) (Fin 1), pt (Fin 0) (Fin 3)]
   \<and> (1::nat) \<le> 2
   \<and> (\<exists>s s'. for_loop ieee [pt (Fin 0) (Fin 0), pt (Fin 0) (Fin 1), pt (Fin 0) (Fin 3)] (Fin 2) 1 = Inr s
     \<and> for_loop ieee [pt (Fin 0) (Fin 0), pt (Fin 0) (Fin 1), pt (Fin 0) (Fin 3)] (Fin 2) 2 = Inr s'
     \<and> originalPointIndex s \<le> originalPointIndex s'
     \<and> originalPointIndex s' \<le> 1)"
proof -
  from cursor_in_bounds [of "[pt (Fin 0) (Fin 0), pt (Fin 0) (Fin 1), pt (Fin 0) (Fin 3)]" 1 2 ieee "Fin 2"]
  obtain s s' where
    "for_loop ieee [pt (Fin 0) (Fin 0), pt (Fin 0) (Fin 1), pt (Fin 0) (Fin 3)] (Fin 2) 1 = Inr s"
    "for_loop ieee [pt (Fin 0) (Fin 0), pt (Fin 0) (Fin 1), pt (Fin 0) (Fin 3)] (Fin 2) 2 = Inr s'"
    "originalPointIndex s \<le> originalPointIndex s'"
    "originalPointIndex s' \<le> length [pt (Fin 0) (Fin 0), pt (Fin 0) (Fin 1), pt (Fin 0) (Fin 3)] - 2"
    by auto
  then show ?thesis by auto
qed

text \<open>
  C6. A run on which the ratio is not in \<open>[0, 1]\<close>: the third point of the path
  has a not-a-number latitude, so the total distance and every target distance
  are not a number; at output index 1 the segment has length 1, the ratio is
  \<open>(NaN - 0) / 1\<close>, neither comparison of the clamp holds and the ratio stays
  not a number. The output point 1 carries a valid elevation whose value is not
  a number.
\<close>

theorem ratio_not_a_number:
  "output_point ieee
     \<lparr>Points = [pte (Fin 0) (Fin 0) (Fin 0), pte (Fin 0) (Fin 1) (Fin 10), pt NaN (Fin 0)]\<rparr> 1 =
     Some (pte (Fin 0) (Fin 0) NaN)
   \<and> compute_ratio ieee
       (f_mul ieee (f_of_int ieee 1)
          (f_div ieee
             (Length2D ieee
                \<lparr>Points = [pte (Fin 0) (Fin 0) (Fin 0), pte (Fin 0) (Fin 1) (Fin 10), pt NaN (Fin 0)]\<rparr>)
             (f_of_int ieee 999)))
       (Fin 0)
       (Distance2D ieee (pte (Fin 0) (Fin 0) (Fin 0)) (pte (Fin 0) (Fin 1) (Fin 10))) = NaN"
proof -
  let ?seg = "\<lparr>Points = [pte (Fin 0) (Fin 0) (Fin 0), pte (Fin 0) (Fin 1) (Fin 10), pt NaN (Fin 0)]\<rparr>"
  have len: "Length2D ieee ?seg = NaN"
    by (simp add: fl_defs pt_def pte_def)
  have ne: "\<not> f_eq ieee (Length2D ieee ?seg) (f_of_int ieee 0)"
    by (simp add: len) (simp add: fl_defs)
  have iv: "f_div ieee (Length2D ieee ?seg) (f_of_int ieee (int numTargetPoints - 1)) = NaN"
    by (simp add: len) (simp add: fl_defs)
  have "for_loop ieee (Points ?seg) NaN (Suc 1) =
      Inr \<lparr>cumulativeDistance = Fin 0, originalPointIndex = 0,
           newSegmentPoints = [pte (Fin 0) (Fin 0) (Fin 0), pte (Fin 0) (Fin 0) NaN]\<rparr>"
    by (simp add: fl_defs pt_def pte_def run_defs)
  then have run: "for_loop ieee (Points ?seg)
      (f_div ieee (Length2D ieee ?seg) (f_of_int ieee (int numTargetPoints - 1))) (Suc 1) =
      Inr \<lparr>cumulativeDistance = Fin 0, originalPointIndex = 0,
           newSegmentPoints = [pte (Fin 0) (Fin 0) (Fin 0), pte (Fin 0) (Fin 0) NaN]\<rparr>"
    by (simp only: iv)
  have sp: "2 \<le> length (Points ?seg)" and i: "1 < numTargetPoints"
    by (simp_all add: numTargetPoints_def)
  have "output_point ieee ?seg 1 =
      Some (newSegmentPoints \<lparr>cumulativeDistance = Fin 0, originalPointIndex = 0,
           newSegmentPoints = [pte (Fin 0) (Fin 0) (Fin 0), pte (Fin 0) (Fin 0) NaN]\<rparr> ! 1)"
    by (rule output_point_run [OF sp ne i run])
  moreover have "compute_ratio ieee
       (f_mul ieee (f_of_int ieee 1) (f_div ieee (Length2D ieee ?seg) (f_of_int ieee 999)))
       (Fin 0)
       (Distance2D ieee (pte (Fin 0) (Fin 0) (Fin 0)) (pte (Fin 0) (Fin 1) (Fin 10))) = NaN"
    by (simp add: len) (simp add: fl_defs pte_def compute_ratio_def)
  ultimately show ?thesis by simp
qed

text \<open>
  C7. In the general branch every interior output point is the interpolation
  between two consecutive source points \<open>p1\<close> and \<open>p2\<close> with some ratio. Its
  elevation is valid with the value \<open>p1 + ratio * (p2 - p1)\<close> when both
  elevations are valid, valid with the value of the valid one when exactly one
  is, and the invalid zero value when neither is.
\<close>

theorem elevation_policy:
  assumes "2 \<le> length (Points segment)"
    and "\<not> f_eq E (Length2D E segment) (f_of_int E 0)"
    and "0 < i" and "i < numTargetPoints - 1"
  shows "\<exists>k ratio newPoint.
       k + 1 < length (Points segment)
     \<and> output_point E segment i = Some newPoint
     \<and> newPoint = interpolate E (Points segment ! k) (Points segment ! (k + 1)) ratio
     \<and> (Valid (Elevation (Points segment ! k)) \<and> Valid (Elevation (Points segment ! (k + 1))) \<longrightarrow>
          Elevation newPoint =
            \<lparr>Valid = True,
             Value = f_add E (Value (Elevation (Points segment ! k)))
               (f_mul E ratio
                  (f_sub E (Value (Elevation (Points segment ! (k + 1))))
                     (Value (Elevation (Points segment ! k)))))\<rparr>)
     \<and> (Valid (Elevation (Points segment ! k)) \<and> \<not> Valid (Elevation (Points segment ! (k + 1))) \<longrightarrow>
          Elevation newPoint = \<lparr>Valid = True, Value = Value (Elevation (Points segment ! k))\<rparr>)
     \<and> (\<not> Valid (Elevation (Points segment ! k)) \<and> Valid (Elevation (Points segment ! (k + 1))) \<longrightarrow>
          Elevation newPoint = \<lparr>Valid = True, Value = Value (Elevation (Points segment ! (k + 1)))\<rparr>)
     \<and> (\<not> Valid (Elevation (Points segment ! k)) \<and> \<not> Valid (Elevation (Points segment ! (k + 1))) \<longrightarrow>
          Elevation newPoint = \<lparr>Valid = False, Value = f_of_int E 0\<rparr>)"
proof -
  from output_point_interior [OF assms] obtain k r where
    k: "k + 1 < length (Points segment)"
    and out: "output_point E segment i =
      Some (interpolate E (Points segment ! k) (Points segment ! (k + 1)) r)"
    by blast
  show ?thesis
    by (intro exI [of _ k] exI [of _ r]
        exI [of _ "interpolate E (Points segment ! k) (Points segment ! (k + 1)) r"])
      (use k out in \<open>simp add: interpolate_elevation\<close>)
qed

theorem elevation_policy_witness:
  "2 \<le> length (Points \<lparr>Points = [pte (Fin 0) (Fin 0) (Fin 0), pte (Fin 0) (Fin 1) (Fin 10)]\<rparr>)
   \<and> \<not> f_eq ieee (Length2D ieee
         \<lparr>Points = [pte (Fin 0) (Fin 0) (Fin 0), pte (Fin 0) (Fin 1) (Fin 10)]\<rparr>) (f_of_int ieee 0)
   \<and> (0::nat) < 1 \<and> 1 < numTargetPoints - 1
   \<and> (\<exists>ratio newPoint.
         output_point ieee
           \<lparr>Points = [pte (Fin 0) (Fin 0) (Fin 0), pte (Fin 0) (Fin 1) (Fin 10)]\<rparr> 1 = Some newPoint
       \<and> Elevation newPoint =
           \<lparr>Valid = True, Value = fl_add (Fin 0) (fl_mul ratio (fl_sub (Fin 10) (Fin 0)))\<rparr>)"
proof -
  let ?seg = "\<lparr>Points = [pte (Fin 0) (Fin 0) (Fin 0), pte (Fin 0) (Fin 1) (Fin 10)]\<rparr>"
  have ne: "\<not> f_eq ieee (Length2D ieee ?seg) (f_of_int ieee 0)"
    by (simp add: fl_defs pte_def)
  have i: "(0::nat) < 1" "1 < numTargetPoints - 1" by (simp_all add: numTargetPoints_def)
  from elevation_policy [OF _ ne i] obtain k ratio newPoint where
    k: "k + 1 < length (Points ?seg)"
    and out: "output_point ieee ?seg 1 = Some newPoint"
    and both: "Valid (Elevation (Points ?seg ! k)) \<and> Valid (Elevation (Points ?seg ! (k + 1))) \<longrightarrow>
          Elevation newPoint =
            \<lparr>Valid = True,
             Value = f_add ieee (Value (Elevation (Points ?seg ! k)))
               (f_mul ieee ratio
                  (f_sub ieee (Value (Elevation (Points ?seg ! (k + 1))))
                     (Value (Elevation (Points ?seg ! k)))))\<rparr>"
    by auto
  from k have "k = 0" by simp
  with both have "Elevation newPoint =
      \<lparr>Valid = True, Value = fl_add (Fin 0) (fl_mul ratio (fl_sub (Fin 10) (Fin 0)))\<rparr>"
    by (simp add: pte_def ieee_def)
  with ne i out show ?thesis by auto
qed

text \<open>
  C8. For every interior output point: when the interpolated latitude or
  longitude is not a number the position is that of \<open>p1\<close>, otherwise it is the
  interpolated one; so an interior position holds a not-a-number only if the
  position of \<open>p1\<close> does.
\<close>

theorem nan_fallback:
  assumes "2 \<le> length (Points segment)"
    and "\<not> f_eq E (Length2D E segment) (f_of_int E 0)"
    and "0 < i" and "i < numTargetPoints - 1"
  shows "\<exists>k ratio newPoint.
       k + 1 < length (Points segment)
     \<and> output_point E segment i = Some newPoint
     \<and> newPoint = interpolate E (Points segment ! k) (Points segment ! (k + 1)) ratio
     \<and> (f_isNaN E (interpolated_lat E (Points segment ! k) (Points segment ! (k + 1)) ratio)
          \<or> f_isNaN E (interpolated_lon E (Points segment ! k) (Points segment ! (k + 1)) ratio) \<longrightarrow>
          Latitude newPoint = Latitude (Points segment ! k)
          \<and> Longitude newPoint = Longitude (Points segment ! k))
     \<and> (\<not> (f_isNaN E (interpolated_lat E (Points segment ! k) (Points segment ! (k + 1)) ratio)
          \<or> f_isNaN E (interpolated_lon E (Points segment ! k) (Points segment ! (k + 1)) ratio)) \<longrightarrow>
          Latitude newPoint = interpolated_lat E (Points segment ! k) (Points segment ! (k + 1)) ratio
          \<and> Longitude newPoint = interpolated_lon E (Points segment ! k) (Points segment ! (k + 1)) ratio)
     \<and> (f_isNaN E (Latitude newPoint) \<or> f_isNaN E (Longitude newPoint) \<longrightarrow>
          f_isNaN E (Latitude (Points segment ! k)) \<or> f_isNaN E (Longitude (Points segment ! k)))"
proof -
  from output_point_interior [OF assms] obtain k r where
    k: "k + 1 < length (Points segment)"
    and out: "output_point E segment i =
      Some (interpolate E (Points segment ! k) (Points segment ! (k + 1)) r)"
    by blast
  show ?thesis
    by (intro exI [of _ k] exI [of _ r]
        exI [of _ "interpolate E (Points segment ! k) (Points segment ! (k + 1)) r"])
      (use k out in \<open>auto simp: interpolate_position\<close>)
qed

theorem nan_fallback_witness:
  "2 \<le> length (Points \<lparr>Points = [pt (Fin 0) (Fin 0), pt (Fin 0) (Fin 1), pt NaN (Fin 0)]\<rparr>)
   \<and> \<not> f_eq ieee (Length2D ieee
         \<lparr>Points = [pt (Fin 0) (Fin 0), pt (Fin 0) (Fin 1), pt NaN (Fin 0)]\<rparr>) (f_of_int ieee 0)
   \<and> (0::nat) < 1 \<and> 1 < numTargetPoints - 1
   \<and> f_isNaN ieee (interpolated_lat ieee (pt (Fin 0) (Fin 0)) (pt (Fin 0) (Fin 1)) NaN)
   \<and> (\<exists>k ratio.
         output_point ieee
           \<lparr>Points = [pt (Fin 0) (Fin 0), pt (Fin 0) (Fin 1), pt NaN (Fin 0)]\<rparr> 1 =
           Some (interpolate ieee
             ([pt (Fin 0) (Fin 0), pt (Fin 0) (Fin 1), pt NaN (Fin 0)] ! k)
             ([pt (Fin 0) (Fin 0), pt (Fin 0) (Fin 1), pt NaN (Fin 0)] ! (k + 1)) ratio))
   \<and> output_point ieee
         \<lparr>Points = [pt (Fin 0) (Fin 0), pt (Fin 0) (Fin 1), pt NaN (Fin 0)]\<rparr> 1 =
       Some (pt (Fin 0) (Fin 0))"
proof -
  let ?seg = "\<lparr>Points = [pt (Fin 0) (Fin 0), pt (Fin 0) (Fin 1), pt NaN (Fin 0)]\<rparr>"
  have len: "Length2D ieee ?seg = NaN"
    by (simp add: fl_defs pt_def)
  have ne: "\<not> f_eq ieee (Length2D ieee ?seg) (f_of_int ieee 0)"
    by (simp add: len) (simp add: fl_defs)
  have i: "(0::nat) < 1" "1 < numTargetPoints - 1" by (simp_all add: numTargetPoints_def)
  have nan: "f_isNaN ieee (interpolated_lat ieee (pt (Fin 0) (Fin 0)) (pt (Fin 0) (Fin 1)) NaN)"
    by (simp add: fl_defs pt_def interpolated_lat_def)
  from nan_fallback [OF _ ne i] obtain k ratio where
    "output_point ieee ?seg 1 =
       Some (interpolate ieee (Points ?seg ! k) (Points ?seg ! (k + 1)) ratio)"
    by auto
  then have ex: "\<exists>k ratio. output_point ieee ?seg 1 =
       Some (interpolate ieee
         ([pt (Fin 0) (Fin 0), pt (Fin 0) (Fin 1), pt NaN (Fin 0)] ! k)
         ([pt (Fin 0) (Fin 0), pt (Fin 0) (Fin 1), pt NaN (Fin 0)] ! (k + 1)) ratio)"
    by auto
  have iv: "f_div ieee (Length2D ieee ?seg) (f_of_int ieee (int numTargetPoints - 1)) = NaN"
    by (simp add: len) (simp add: fl_defs)
  have "for_loop ieee (Points ?seg) NaN (Suc 1) =
      Inr \<lparr>cumulativeDistance = Fin 0, originalPointIndex = 0,
           newSegmentPoints = [pt (Fin 0) (Fin 0), pt (Fin 0) (Fin 0)]\<rparr>"
    by (simp add: fl_defs pt_def run_defs)
  then have run: "for_loop ieee (Points ?seg)
      (f_div ieee (Length2D ieee ?seg) (f_of_int ieee (int numTargetPoints - 1))) (Suc 1) =
      Inr \<lparr>cumulativeDistance = Fin 0, originalPointIndex = 0,
           newSegmentPoints = [pt (Fin 0) (Fin 0), pt (Fin 0) (Fin 0)]\<rparr>"
    by (simp only: iv)
  have sp: "2 \<le> length (Points ?seg)" and i': "1 < numTargetPoints"
    by (simp_all add: numTargetPoints_def)
  have "output_point ieee ?seg 1 = Some (pt (Fin 0) (Fin 0))"
    using output_point_run [OF sp ne i' run] by simp
  with ne i nan ex show ?thesis by simp
qed





text \<open>
  C10. Whenever \<^verbatim>\<open>normalizeGPX\<close> returns a container, its creator is the fixed
  string \<^verbatim>\<open>gpx-normalizer\<close> and the other header fields assigned in lines 45 to
  57 are those of the input.
\<close>

theorem header_fields:
  assumes "normalizeGPX E gpxFile = Inr newGpx"
  shows "Creator newGpx = ''gpx-normalizer''
     \<and> Version newGpx = Version gpxFile
     \<and> Name newGpx = Name gpxFile
     \<and> Description newGpx = Description gpxFile
     \<and> AuthorName newGpx = AuthorName gpxFile
     \<and> CopyrightAuthor newGpx = CopyrightAuthor gpxFile
     \<and> CopyrightYear newGpx = CopyrightYear gpxFile
     \<and> CopyrightLicense newGpx = CopyrightLicense gpxFile
     \<and> Link newGpx = Link gpxFile
     \<and> LinkText newGpx = LinkText gpxFile
     \<and> Time newGpx = Time gpxFile
     \<and> Keywords newGpx = Keywords gpxFile
     \<and> Bounds newGpx = Bounds gpxFile
     \<and> Extensions newGpx = Extensions gpxFile"
  using assms
  by (auto simp: normalizeGPX_def Let_def split: if_splits sum.splits)

theorem header_fields_witness:
  "normalizeGPX ieee (gpx_of [pt (Fin 5) (Fin 5), pt (Fin 5) (Fin 5)]) =
     Inr ((gpx_of (replicate numTargetPoints (pt (Fin 5) (Fin 5))))
            \<lparr>Creator := ''gpx-normalizer''\<rparr>)
   \<and> Creator ((gpx_of (replicate numTargetPoints (pt (Fin 5) (Fin 5))))
            \<lparr>Creator := ''gpx-normalizer''\<rparr>) = ''gpx-normalizer''
   \<and> Version ((gpx_of (replicate numTargetPoints (pt (Fin 5) (Fin 5))))
            \<lparr>Creator := ''gpx-normalizer''\<rparr>) =
       Version (gpx_of [pt (Fin 5) (Fin 5), pt (Fin 5) (Fin 5)])
   \<and> Keywords ((gpx_of (replicate numTargetPoints (pt (Fin 5) (Fin 5))))
            \<lparr>Creator := ''gpx-normalizer''\<rparr>) =
       Keywords (gpx_of [pt (Fin 5) (Fin 5), pt (Fin 5) (Fin 5)])"
proof -
  let ?seg = "\<lparr>Points = [pt (Fin 5) (Fin 5), pt (Fin 5) (Fin 5)]\<rparr>"
  have zero: "f_eq ieee (Length2D ieee ?seg) (f_of_int ieee 0)"
    by (simp add: fl_defs pt_def)
  have "resample ieee ?seg = Inr (replicate numTargetPoints (pt (Fin 5) (Fin 5)))"
    using resample_degenerate [OF _ zero] by simp
  then have run: "normalizeGPX ieee (gpx_of [pt (Fin 5) (Fin 5), pt (Fin 5) (Fin 5)]) =
     Inr ((gpx_of (replicate numTargetPoints (pt (Fin 5) (Fin 5))))
            \<lparr>Creator := ''gpx-normalizer''\<rparr>)"
    by (simp add: normalizeGPX_def gpx_of_def)
  from header_fields [OF run] run show ?thesis by simp
qed

end
